theory Spec2Isabelle
  imports Main "HOL-Library.Word"
begin

section \<open>The CUDA kernel launcher (third_party/nvidia/backend/launcher.c)\<close>

text \<open>
  A shallow embedding of \<^verbatim>\<open>launcher.c\<close>: \<^verbatim>\<open>gpuAssert\<close>,
  \<^verbatim>\<open>getLaunchKernelExHandle\<close>, \<^verbatim>\<open>_launch\<close> and \<^verbatim>\<open>launch\<close>.

  What the C code does to the outside is made explicit:
  \<^item> the Python error indicator (\<^verbatim>\<open>PyErr_SetString\<close>, \<^verbatim>\<open>PyErr_Occurred\<close>) and
    the function-local \<^verbatim>\<open>static\<close> handle of \<^verbatim>\<open>_launch\<close> are fields of a state
    record that every function takes and returns;
  \<^item> every call into the dynamic loader, the CUDA driver and a Python hook is
    appended, with its arguments, to a trace kept in the same record;
  \<^item> what the loader and the driver answer is a parameter (the record \<open>env\<close>);
  \<^item> a call through a NULL function pointer is a fault, an outcome of its own.

  C \<^verbatim>\<open>int\<close> and \<^verbatim>\<open>unsigned int\<close> are 32-bit words, \<^verbatim>\<open>uint64_t\<close> and pointers
  handed over as integers are 64-bit words. Multiplication of \<^verbatim>\<open>int\<close> wraps around
  in the model (signed overflow is undefined in C; theorems that depend on it say so).
\<close>

subsection \<open>Data\<close>

type_synonym cint = "32 word"
type_synonym cuint = "32 word"
type_synonym u64 = "64 word"

text \<open>\<^verbatim>\<open>CUresult\<close>; \<^verbatim>\<open>CUDA_SUCCESS\<close> is 0.\<close>

type_synonym CUresult = "32 word"

definition CUDA_SUCCESS :: CUresult where
  "CUDA_SUCCESS = 0"

text \<open>
  The Python exceptions the launcher can leave in the error indicator:
  the \<^verbatim>\<open>RuntimeError\<close>s it sets itself, the two errors of
  \<^verbatim>\<open>PyLong_AsUnsignedLongLong\<close>, and whatever a hook raises.
\<close>

datatype py_exception =
    RuntimeError string
  | OverflowError
  | TypeError
  | Raised string

text \<open>An element of the argument tuple \<^verbatim>\<open>args_obj\<close>: a Python int, or any other object.\<close>

datatype pyobj = PyLong int | PyNonInt

text \<open>
  A hook argument: \<^verbatim>\<open>Py_None\<close>, or an object that is called. Calling it either
  returns (\<open>None\<close>) or raises (\<open>Some exc\<close>).
\<close>

datatype pyhook = Py_None | Callable string "py_exception option"

text \<open>
  An entry of \<^verbatim>\<open>arg_ptrs\<close> (a \<^verbatim>\<open>void*\<close>): \<open>Slot i\<close> is \<^verbatim>\<open>&arg_vals[i]\<close>,
  \<open>Wild\<close> is the content of memory that \<^verbatim>\<open>malloc\<close> returned and nobody wrote.
\<close>

datatype argptr = Wild | Slot nat

datatype CUlaunchAttributeID =
    CU_LAUNCH_ATTRIBUTE_CLUSTER_DIMENSION
  | CU_LAUNCH_ATTRIBUTE_CLUSTER_SCHEDULING_POLICY_PREFERENCE

datatype CUclusterSchedulingPolicy =
    CU_CLUSTER_SCHEDULING_POLICY_DEFAULT
  | CU_CLUSTER_SCHEDULING_POLICY_SPREAD
  | CU_CLUSTER_SCHEDULING_POLICY_LOAD_BALANCING

datatype CUlaunchAttributeValue =
    clusterDim cuint cuint cuint
  | clusterSchedulingPolicyPreference CUclusterSchedulingPolicy

record CUlaunchAttribute =
  attr_id :: CUlaunchAttributeID
  attr_value :: CUlaunchAttributeValue

record CUlaunchConfig =
  gridDimX :: cuint
  gridDimY :: cuint
  gridDimZ :: cuint
  blockDimX :: cuint
  blockDimY :: cuint
  blockDimZ :: cuint
  sharedMemBytes :: cuint
  hStream :: u64
  attrs :: "CUlaunchAttribute list"
  numAttrs :: cuint

text \<open>
  The calls that leave the launcher, with their arguments in the order of the C call.
  \<open>CuLaunchKernel f gx gy gz bx by bz shmem stream params extra\<close> is the driver's
  simple launch; \<open>CuLaunchKernelEx h config f params extra\<close> is a call through the
  function pointer \<open>h\<close> that \<^verbatim>\<open>dlsym\<close> gave for \<^verbatim>\<open>cuLaunchKernelEx\<close>.
  A NULL \<^verbatim>\<open>extra\<close> is 0.
\<close>

datatype event =
    Dlopen string
  | Dlerror
  | Dlsym string
  | CuLaunchKernel u64 cuint cuint cuint cuint cuint cuint cuint u64 "argptr list" u64
  | CuLaunchKernelEx u64 CUlaunchConfig u64 "argptr list" u64
  | PyObject_CallObject pyhook

record world =
  pyerr :: "py_exception option"
  cuLaunchKernelExHandle :: u64
  trace :: "event list"

text \<open>
  The answers of the outside: the handle \<^verbatim>\<open>dlopen("libcuda.so")\<close> returns (0 is NULL),
  the value \<^verbatim>\<open>dlsym\<close> returns for \<^verbatim>\<open>cuLaunchKernelEx\<close>, whether \<^verbatim>\<open>dlerror\<close>
  reports an error after it, the status the driver returns for a launch call, the
  text of \<^verbatim>\<open>cuGetErrorString\<close>, and the content of freshly allocated words.
\<close>

record env =
  dlopen_libcuda :: u64
  dlsym_cuLaunchKernelEx :: u64
  dlsym_error :: bool
  cu_result :: "event \<Rightarrow> CUresult"
  cuGetErrorString :: "CUresult \<Rightarrow> string"
  uninitialised :: u64

datatype fault = NullFunctionPointerCall

subsection \<open>gpuAssert and CUDA\_CHECK\<close>

definition gpuAssert :: "env \<Rightarrow> CUresult \<Rightarrow> world \<Rightarrow> world" where
  "gpuAssert e code w =
     (if code \<noteq> CUDA_SUCCESS
      then w\<lparr>pyerr := Some (RuntimeError (''Triton Error [CUDA]: '' @ cuGetErrorString e code))\<rparr>
      else w)"

subsection \<open>getLaunchKernelExHandle\<close>

text \<open>
  The model is sequential and does not track the interpreter lock. \<^verbatim>\<open>gpuAssert\<close>
  takes the lock around \<^verbatim>\<open>PyErr_SetString\<close>; \<^verbatim>\<open>getLaunchKernelExHandle\<close> does not,
  and \<^verbatim>\<open>launch\<close> calls \<^verbatim>\<open>_launch\<close> with the lock released (line 112). In a built
  process the two error branches below therefore already fail inside
  \<^verbatim>\<open>PyErr_SetString\<close>; the state the model gives for them (error set, NULL
  returned) is the one reached with the lock held. No property below rests on the
  difference: on either account a failed resolution ends in a fault, not in a
  failure returned to the caller.
\<close>

definition getLaunchKernelExHandle :: "env \<Rightarrow> world \<Rightarrow> u64 \<times> world" where
  "getLaunchKernelExHandle e w =
     (let w1 = w\<lparr>trace := trace w @ [Dlopen ''libcuda.so'']\<rparr> in
      if dlopen_libcuda e = 0
      then (0, w1\<lparr>pyerr := Some (RuntimeError ''Failed to open libcuda.so'')\<rparr>)
      else
        let w2 = w1\<lparr>trace := trace w1 @ [Dlerror, Dlsym ''cuLaunchKernelEx'', Dlerror]\<rparr> in
        if dlsym_error e
        then (0, w2\<lparr>pyerr := Some (RuntimeError
                 ''Failed to retrieve cuLaunchKernelEx from libcuda.so'')\<rparr>)
        else (dlsym_cuLaunchKernelEx e, w2))"

subsection \<open>\_launch\<close>

text \<open>
  Lines 69 to 72 of \<^verbatim>\<open>_launch\<close>: the static handle, resolved when it is NULL.
\<close>

definition resolveExtendedLaunch :: "env \<Rightarrow> world \<Rightarrow> world" where
  "resolveExtendedLaunch e w =
     (if cuLaunchKernelExHandle w = 0
      then (case getLaunchKernelExHandle e w of
              (h, w') \<Rightarrow> w'\<lparr>cuLaunchKernelExHandle := h\<rparr>)
      else w)"

text \<open>
  \<^verbatim>\<open>_launch\<close> (an Isabelle name cannot start with an underscore). The result is
  \<open>Inr\<close> of the state when the function returns, \<open>Inl\<close> of the fault and the state
  reached when it calls through a NULL handle.
\<close>

definition static_launch ::
  "env \<Rightarrow> cint \<Rightarrow> cint \<Rightarrow> cint \<Rightarrow> cint \<Rightarrow> cint \<Rightarrow> cint \<Rightarrow> cint \<Rightarrow> cint \<Rightarrow> cint
     \<Rightarrow> u64 \<Rightarrow> u64 \<Rightarrow> argptr list \<Rightarrow> world \<Rightarrow> (fault \<times> world) + world" where
  "static_launch e gridX gridY gridZ num_warps num_ctas clusterDimX clusterDimY clusterDimZ
       shared_memory stream func params w =
     (if 0 <s gridX * gridY * gridZ then
        if num_ctas = 1 then
          let call = CuLaunchKernel func gridX gridY gridZ (32 * num_warps) 1 1
                       shared_memory stream params 0
          in Inr (gpuAssert e (cu_result e call) (w\<lparr>trace := trace w @ [call]\<rparr>))
        else
          let launchAttr =
                [\<lparr>attr_id = CU_LAUNCH_ATTRIBUTE_CLUSTER_DIMENSION,
                  attr_value = clusterDim clusterDimX clusterDimY clusterDimZ\<rparr>,
                 \<lparr>attr_id = CU_LAUNCH_ATTRIBUTE_CLUSTER_SCHEDULING_POLICY_PREFERENCE,
                  attr_value = clusterSchedulingPolicyPreference
                                 CU_CLUSTER_SCHEDULING_POLICY_SPREAD\<rparr>];
              config =
                \<lparr>gridDimX = gridX * clusterDimX,
                 gridDimY = gridY * clusterDimY,
                 gridDimZ = gridZ * clusterDimZ,
                 blockDimX = 32 * num_warps,
                 blockDimY = 1,
                 blockDimZ = 1,
                 sharedMemBytes = shared_memory,
                 hStream = stream,
                 attrs = launchAttr,
                 numAttrs = 2\<rparr>;
              w1 = resolveExtendedLaunch e w
          in if cuLaunchKernelExHandle w1 = 0
             then Inl (NullFunctionPointerCall, w1)
             else
               let call = CuLaunchKernelEx (cuLaunchKernelExHandle w1) config func params 0
               in Inr (gpuAssert e (cu_result e call) (w1\<lparr>trace := trace w1 @ [call]\<rparr>))
      else Inr w)"

subsection \<open>launch\<close>

text \<open>
  \<^verbatim>\<open>PyLong_AsUnsignedLongLong\<close> of the CPython API, as documented: the value of a
  Python int in the range of \<^verbatim>\<open>unsigned long long\<close>; otherwise
  \<^verbatim>\<open>(unsigned long long)-1\<close> with \<^verbatim>\<open>OverflowError\<close> set (negative or too large)
  or \<^verbatim>\<open>TypeError\<close> set (not an int).
\<close>

definition PyLong_AsUnsignedLongLong :: "pyobj \<Rightarrow> world \<Rightarrow> u64 \<times> world" where
  "PyLong_AsUnsignedLongLong item w =
     (case item of
        PyLong v \<Rightarrow>
          if 0 \<le> v \<and> v < 2 ^ 64 then (word_of_int v, w)
          else (- 1, w\<lparr>pyerr := Some OverflowError\<rparr>)
      | PyNonInt \<Rightarrow> (- 1, w\<lparr>pyerr := Some TypeError\<rparr>))"

text \<open>
  The test \<^verbatim>\<open>hook != Py_None && !PyObject_CallObject(hook, args)\<close>: whether the
  hook was called and failed, and the state after it.
\<close>

definition hook_failed :: "pyhook \<Rightarrow> world \<Rightarrow> bool \<times> world" where
  "hook_failed hook w =
     (case hook of
        Py_None \<Rightarrow> (False, w)
      | Callable name behaviour \<Rightarrow>
          (let w1 = w\<lparr>trace := trace w @ [PyObject_CallObject hook]\<rparr> in
           case behaviour of
             None \<Rightarrow> (False, w1)
           | Some exc \<Rightarrow> (True, w1\<lparr>pyerr := Some exc\<rparr>)))"

text \<open>The two arrays of \<^verbatim>\<open>launch\<close>, \<^verbatim>\<open>arg_vals\<close> and \<^verbatim>\<open>arg_ptrs\<close>.\<close>

record marshal_bufs =
  arg_vals :: "u64 list"
  arg_ptrs :: "argptr list"

text \<open>The loop of lines 106 to 110, from index \<open>i\<close> on.\<close>

function marshal_loop :: "pyobj list \<Rightarrow> nat \<Rightarrow> marshal_bufs \<Rightarrow> world \<Rightarrow> marshal_bufs \<times> world" where
  "marshal_loop args_obj i b w =
     (if i < length args_obj then
        (case PyLong_AsUnsignedLongLong (args_obj ! i) w of
           (v, w') \<Rightarrow>
             marshal_loop args_obj (Suc i)
               (b\<lparr>arg_vals := (arg_vals b)[i := v],
                  arg_ptrs := (arg_ptrs b)[i := Slot i]\<rparr>) w')
      else (b, w))"
  by pat_completeness auto
termination
  by (relation "measure (\<lambda>(args_obj, i, b, w). length args_obj - i)") auto

declare marshal_loop.simps [simp del]

text \<open>
  Lines 103 to 110: the two allocations (taken to succeed) and the loop.
\<close>

definition marshal :: "env \<Rightarrow> pyobj list \<Rightarrow> world \<Rightarrow> marshal_bufs \<times> world" where
  "marshal e args_obj w =
     (let nargs = length args_obj in
      marshal_loop args_obj 0
        \<lparr>arg_vals = replicate nargs (uninitialised e),
         arg_ptrs = replicate nargs Wild\<rparr> w)"

text \<open>
  The values \<^verbatim>\<open>PyArg_ParseTuple\<close> stored, when it succeeded
  (\<open>func\<close> is the C variable \<^verbatim>\<open>_function\<close>, the kernel handle).
\<close>

record launch_args =
  gridX :: cint
  gridY :: cint
  gridZ :: cint
  num_warps :: cint
  num_ctas :: cint
  clusterDimX :: cint
  clusterDimY :: cint
  clusterDimZ :: cint
  shared_memory :: cint
  stream :: u64
  func :: u64
  launch_enter_hook :: pyhook
  launch_exit_hook :: pyhook
  args_obj :: "pyobj list"

text \<open>What \<^verbatim>\<open>launch\<close> returns: \<^verbatim>\<open>NULL\<close> (an exception is pending) or \<^verbatim>\<open>Py_None\<close>.\<close>

datatype retval = NULL | ReturnNone

text \<open>
  \<^verbatim>\<open>launch\<close> from line 97 on, that is after \<^verbatim>\<open>PyArg_ParseTuple\<close> succeeded.
\<close>

definition launch :: "env \<Rightarrow> launch_args \<Rightarrow> world \<Rightarrow> (fault \<times> world) + (retval \<times> world)" where
  "launch e a w =
     (case hook_failed (launch_enter_hook a) w of
        (True, w1) \<Rightarrow> Inr (NULL, w1)
      | (False, w1) \<Rightarrow>
          (case marshal e (args_obj a) w1 of
             (b, w2) \<Rightarrow>
               (case static_launch e (gridX a) (gridY a) (gridZ a) (num_warps a) (num_ctas a)
                       (clusterDimX a) (clusterDimY a) (clusterDimZ a) (shared_memory a)
                       (stream a) (func a) (arg_ptrs b) w2 of
                  Inl crash \<Rightarrow> Inl crash
                | Inr w3 \<Rightarrow>
                    if pyerr w3 \<noteq> None then Inr (NULL, w3)
                    else
                      (case hook_failed (launch_exit_hook a) w3 of
                         (True, w4) \<Rightarrow> Inr (NULL, w4)
                       | (False, w4) \<Rightarrow> Inr (ReturnNone, w4)))))"

text \<open>
  Lines 103 to 118 of \<^verbatim>\<open>launch\<close> on their own: marshaling and the call of
  \<^verbatim>\<open>_launch\<close>, between the two hooks.
\<close>

definition device_phase :: "env \<Rightarrow> launch_args \<Rightarrow> world \<Rightarrow> (fault \<times> world) + world" where
  "device_phase e a w1 =
     (case marshal e (args_obj a) w1 of
        (b, w2) \<Rightarrow>
          static_launch e (gridX a) (gridY a) (gridZ a) (num_warps a) (num_ctas a)
            (clusterDimX a) (clusterDimY a) (clusterDimZ a) (shared_memory a)
            (stream a) (func a) (arg_ptrs b) w2)"

text \<open>The call a hook argument stands for (none for \<^verbatim>\<open>Py_None\<close>), and what it raises.\<close>

fun hook_call :: "pyhook \<Rightarrow> event list" where
  "hook_call Py_None = []"
| "hook_call (Callable name behaviour) = [PyObject_CallObject (Callable name behaviour)]"

fun hook_exception :: "pyhook \<Rightarrow> py_exception option" where
  "hook_exception Py_None = None"
| "hook_exception (Callable name behaviour) = behaviour"

subsection \<open>Reading an outcome\<close>

text \<open>The state in which \<^verbatim>\<open>_launch\<close> ended, whether it returned or faulted.\<close>

definition outcome_world :: "(fault \<times> world) + world \<Rightarrow> world" where
  "outcome_world r = (case r of Inl (crash, w) \<Rightarrow> w | Inr w \<Rightarrow> w)"

text \<open>The calls made between the state \<open>w\<close> and the later state \<open>w'\<close>.\<close>

definition issued :: "world \<Rightarrow> world \<Rightarrow> event list" where
  "issued w w' = drop (length (trace w)) (trace w')"

fun is_simple_launch :: "event \<Rightarrow> bool" where
  "is_simple_launch (CuLaunchKernel f gx gy gz bx by bz sh st ps ex) = True"
| "is_simple_launch ev = False"

fun is_extended_launch :: "event \<Rightarrow> bool" where
  "is_extended_launch (CuLaunchKernelEx h cfg f ps ex) = True"
| "is_extended_launch ev = False"

definition is_driver_launch :: "event \<Rightarrow> bool" where
  "is_driver_launch ev = (is_simple_launch ev \<or> is_extended_launch ev)"

fun is_loader_call :: "event \<Rightarrow> bool" where
  "is_loader_call (Dlopen name) = True"
| "is_loader_call Dlerror = True"
| "is_loader_call (Dlsym name) = True"
| "is_loader_call ev = False"

fun is_hook_call :: "event \<Rightarrow> bool" where
  "is_hook_call (PyObject_CallObject h) = True"
| "is_hook_call ev = False"

text \<open>
  The extended entry point can be called: a handle is cached already, or the loader
  opens the library and finds a non-NULL symbol.
\<close>

definition extended_launch_available :: "env \<Rightarrow> world \<Rightarrow> bool" where
  "extended_launch_available e w =
     (cuLaunchKernelExHandle w \<noteq> 0 \<or>
      (dlopen_libcuda e \<noteq> 0 \<and> \<not> dlsym_error e \<and> dlsym_cuLaunchKernelEx e \<noteq> 0))"

text \<open>A Python object that \<^verbatim>\<open>unsigned long long\<close> can hold, and its value.\<close>

fun u64_representable :: "pyobj \<Rightarrow> bool" where
  "u64_representable (PyLong v) = (0 \<le> v \<and> v < 2 ^ 64)"
| "u64_representable PyNonInt = False"

fun int_value :: "pyobj \<Rightarrow> int" where
  "int_value (PyLong v) = v"
| "int_value PyNonInt = 0"

text \<open>
  A process makes any number of calls of \<^verbatim>\<open>launch\<close>, one after the other, each
  with its own arguments and its own answers of the outside; a fault ends it. When a
  call returns, its caller takes the pending exception, if any, so the next call
  starts with the error indicator clear; the static handle and the trace carry over.
\<close>

fun launches :: "(env \<times> launch_args) list \<Rightarrow> world \<Rightarrow> (fault \<times> world) + world" where
  "launches [] w = Inr w"
| "launches ((e, a) # rest) w =
     (case launch e a w of
        Inl crash \<Rightarrow> Inl crash
      | Inr (v, w') \<Rightarrow> launches rest (w'\<lparr>pyerr := None\<rparr>))"

subsection \<open>Concrete environments and calls\<close>

text \<open>A driver that exports \<^verbatim>\<open>cuLaunchKernelEx\<close> and accepts every launch.\<close>

definition new_driver :: env where
  "new_driver =
     \<lparr>dlopen_libcuda = 0x7F0000001000, dlsym_cuLaunchKernelEx = 0x7F0000002000,
      dlsym_error = False, cu_result = (\<lambda>ev. CUDA_SUCCESS),
      cuGetErrorString = (\<lambda>code. ''no error''), uninitialised = 0xDEADBEEF\<rparr>"

text \<open>An older driver: the library opens, the symbol is absent.\<close>

definition old_driver :: env where
  "old_driver =
     \<lparr>dlopen_libcuda = 0x7F0000001000, dlsym_cuLaunchKernelEx = 0,
      dlsym_error = True, cu_result = (\<lambda>ev. CUDA_SUCCESS),
      cuGetErrorString = (\<lambda>code. ''no error''), uninitialised = 0xDEADBEEF\<rparr>"

text \<open>A driver that rejects every launch with status 1.\<close>

definition failing_driver :: env where
  "failing_driver =
     \<lparr>dlopen_libcuda = 0x7F0000001000, dlsym_cuLaunchKernelEx = 0x7F0000002000,
      dlsym_error = False, cu_result = (\<lambda>ev. 1),
      cuGetErrorString = (\<lambda>code. ''invalid argument''), uninitialised = 0xDEADBEEF\<rparr>"

text \<open>The state of a process that has not launched anything.\<close>

definition fresh :: world where
  "fresh = \<lparr>pyerr = None, cuLaunchKernelExHandle = 0, trace = []\<rparr>"

text \<open>Scenario A of the specification: grid 1x1x1, 4 warps, one CTA, no arguments.\<close>

definition scenario_A :: launch_args where
  "scenario_A =
     \<lparr>gridX = 1, gridY = 1, gridZ = 1, num_warps = 4, num_ctas = 1,
      clusterDimX = 1, clusterDimY = 1, clusterDimZ = 1, shared_memory = 0,
      stream = 0x10, func = 0x20, launch_enter_hook = Py_None, launch_exit_hook = Py_None,
      args_obj = []\<rparr>"

text \<open>Scenario B: grid 2x2x1, 8 warps, 4 CTAs in clusters of 2x2x1, 1024 bytes.\<close>

definition scenario_B :: launch_args where
  "scenario_B =
     \<lparr>gridX = 2, gridY = 2, gridZ = 1, num_warps = 8, num_ctas = 4,
      clusterDimX = 2, clusterDimY = 2, clusterDimZ = 1, shared_memory = 1024,
      stream = 0x10, func = 0x20, launch_enter_hook = Py_None, launch_exit_hook = Py_None,
      args_obj = [PyLong 5, PyLong 1000000000000]\<rparr>"

text \<open>Scenario A with one argument, the Python int \<open>2 ^ 64\<close>.\<close>

definition oversized_argument :: launch_args where
  "oversized_argument = scenario_A\<lparr>args_obj := [PyLong 18446744073709551616]\<rparr>"

text \<open>Scenario A with both hooks given: the first returns, the second raises.\<close>

definition exit_hook_raises :: launch_args where
  "exit_hook_raises =
     scenario_A\<lparr>launch_enter_hook := Callable ''enter'' None,
                launch_exit_hook := Callable ''exit'' (Some (Raised ''exit failed''))\<rparr>"

text \<open>Scenario A with both hooks given: the first raises.\<close>

definition enter_hook_raises :: launch_args where
  "enter_hook_raises =
     scenario_A\<lparr>launch_enter_hook := Callable ''enter'' (Some (Raised ''enter failed'')),
                launch_exit_hook := Callable ''exit'' None\<rparr>"

text \<open>Scenario A with \<^verbatim>\<open>gridX = -1\<close>.\<close>

definition negative_grid :: launch_args where
  "negative_grid = scenario_A\<lparr>gridX := - 1\<rparr>"

text \<open>
  Scenario A with the grid 65536 x 32768 x 1, whose product \<open>2 ^ 31\<close> is beyond
  \<^verbatim>\<open>INT_MAX\<close>.
\<close>

definition overflowing_grid :: launch_args where
  "overflowing_grid = scenario_A\<lparr>gridX := 65536, gridY := 32768\<rparr>"

text \<open>Scenario B with \<^verbatim>\<open>gridY = 0\<close>.\<close>

definition empty_grid :: launch_args where
  "empty_grid = scenario_B\<lparr>gridY := 0\<rparr>"

section \<open>Properties\<close>

subsection \<open>Auxiliary facts\<close>

text \<open>
  The product of three non-negative C ints that does not overflow is computed exactly.
\<close>

lemma sint_prod3:
  fixes a b c :: "32 word"
  assumes "0 \<le>s a" "0 \<le>s b" "0 \<le>s c" "sint a * sint b * sint c < 2 ^ 31"
  shows "sint (a * b * c) = sint a * sint b * sint c"
proof -
  have nn: "0 \<le> sint a" "0 \<le> sint b" "0 \<le> sint c"
    using assms by (simp_all add: word_sle_eq)
  then have p: "0 \<le> sint a * sint b * sint c" by simp
  have "a * b * c = word_of_int (sint a * sint b * sint c)"
    by simp
  then have "sint (a * b * c) = signed_take_bit 31 (sint a * sint b * sint c)"
    by (simp only: sint_sbintrunc') simp
  also have "\<dots> = sint a * sint b * sint c"
    using p assms(4) by (intro signed_take_bit_int_eq_self) simp_all
  finally show ?thesis .
qed

lemma grid_product_nonneg:
  fixes a b c :: "32 word"
  assumes "0 \<le>s a" "0 \<le>s b" "0 \<le>s c" "sint a * sint b * sint c < 2 ^ 31"
  shows "0 \<le>s a * b * c"
proof -
  have "0 \<le> sint a * sint b * sint c"
    using assms by (simp add: word_sle_eq)
  then show ?thesis
    using sint_prod3 [OF assms] by (simp add: word_sle_eq)
qed

lemma trace_gpuAssert [simp]: "trace (gpuAssert e code w) = trace w"
  by (simp add: gpuAssert_def)

lemma handle_gpuAssert [simp]:
  "cuLaunchKernelExHandle (gpuAssert e code w) = cuLaunchKernelExHandle w"
  by (simp add: gpuAssert_def)

lemma issued_append [simp]: "trace w' = trace w @ evs \<Longrightarrow> issued w w' = evs"
  by (simp add: issued_def)

lemma issued_same [simp]: "issued w w = []"
  by (simp add: issued_def)

lemma resolve_cached:
  "cuLaunchKernelExHandle w \<noteq> 0 \<Longrightarrow> resolveExtendedLaunch e w = w"
  by (simp add: resolveExtendedLaunch_def)

lemma trace_resolve:
  "\<exists>evs. trace (resolveExtendedLaunch e w) = trace w @ evs \<and> (\<forall>ev \<in> set evs. is_loader_call ev)"
  by (auto simp: resolveExtendedLaunch_def getLaunchKernelExHandle_def Let_def)

lemma handle_resolve_available:
  "extended_launch_available e w \<Longrightarrow> cuLaunchKernelExHandle (resolveExtendedLaunch e w) \<noteq> 0"
  by (auto simp: extended_launch_available_def resolveExtendedLaunch_def
      getLaunchKernelExHandle_def Let_def)

lemma handle_resolve_unavailable:
  "\<not> extended_launch_available e w \<Longrightarrow> cuLaunchKernelExHandle (resolveExtendedLaunch e w) = 0"
  by (auto simp: extended_launch_available_def resolveExtendedLaunch_def
      getLaunchKernelExHandle_def Let_def)

lemma static_launch_degenerate:
  "\<not> 0 <s gx * gy * gz \<Longrightarrow>
   static_launch e gx gy gz nw nc cx cy cz sh st f ps w = Inr w"
  by (simp add: static_launch_def)

lemma static_launch_simple:
  "0 <s gx * gy * gz \<Longrightarrow>
   static_launch e gx gy gz nw 1 cx cy cz sh st f ps w =
     Inr (gpuAssert e (cu_result e (CuLaunchKernel f gx gy gz (32 * nw) 1 1 sh st ps 0))
            (w\<lparr>trace := trace w @ [CuLaunchKernel f gx gy gz (32 * nw) 1 1 sh st ps 0]\<rparr>))"
  by (simp add: static_launch_def Let_def)

lemma static_launch_cluster:
  "0 <s gx * gy * gz \<Longrightarrow> nc \<noteq> 1 \<Longrightarrow> cuLaunchKernelExHandle (resolveExtendedLaunch e w) \<noteq> 0 \<Longrightarrow>
   static_launch e gx gy gz nw nc cx cy cz sh st f ps w =
     (let w1 = resolveExtendedLaunch e w;
          call = CuLaunchKernelEx (cuLaunchKernelExHandle w1)
             \<lparr>gridDimX = gx * cx, gridDimY = gy * cy, gridDimZ = gz * cz,
              blockDimX = 32 * nw, blockDimY = 1, blockDimZ = 1,
              sharedMemBytes = sh, hStream = st,
              attrs = [\<lparr>attr_id = CU_LAUNCH_ATTRIBUTE_CLUSTER_DIMENSION,
                        attr_value = clusterDim cx cy cz\<rparr>,
                       \<lparr>attr_id = CU_LAUNCH_ATTRIBUTE_CLUSTER_SCHEDULING_POLICY_PREFERENCE,
                        attr_value = clusterSchedulingPolicyPreference
                                       CU_CLUSTER_SCHEDULING_POLICY_SPREAD\<rparr>],
              numAttrs = 2\<rparr> f ps 0
      in Inr (gpuAssert e (cu_result e call) (w1\<lparr>trace := trace w1 @ [call]\<rparr>)))"
  by (simp add: static_launch_def Let_def)

lemma static_launch_cluster_null:
  "0 <s gx * gy * gz \<Longrightarrow> nc \<noteq> 1 \<Longrightarrow> cuLaunchKernelExHandle (resolveExtendedLaunch e w) = 0 \<Longrightarrow>
   static_launch e gx gy gz nw nc cx cy cz sh st f ps w =
     Inl (NullFunctionPointerCall, resolveExtendedLaunch e w)"
  by (simp add: static_launch_def Let_def)

text \<open>The conversion and the marshaling loop.\<close>

lemma conv_trace [simp]: "trace (snd (PyLong_AsUnsignedLongLong x w)) = trace w"
  by (cases x) (simp_all add: PyLong_AsUnsignedLongLong_def)

lemma conv_handle [simp]:
  "cuLaunchKernelExHandle (snd (PyLong_AsUnsignedLongLong x w)) = cuLaunchKernelExHandle w"
  by (cases x) (simp_all add: PyLong_AsUnsignedLongLong_def)

lemma conv_representable:
  "u64_representable x \<Longrightarrow> PyLong_AsUnsignedLongLong x w = (word_of_int (int_value x), w)"
  by (cases x) (simp_all add: PyLong_AsUnsignedLongLong_def)

lemma marshal_loop_trace:
  "trace (snd (marshal_loop xs i b w)) = trace w"
proof (induction xs i b w rule: marshal_loop.induct)
  case (1 xs i b w)
  show ?case
  proof (cases "i < length xs")
    case True
    obtain v w' where c: "PyLong_AsUnsignedLongLong (xs ! i) w = (v, w')"
      by (cases "PyLong_AsUnsignedLongLong (xs ! i) w")
    have "trace w' = trace w"
      using conv_trace [of "xs ! i" w] c by simp
    with 1 [OF True c [symmetric]] True c show ?thesis
      by (simp add: marshal_loop.simps [of xs i])
  next
    case False
    then show ?thesis by (simp add: marshal_loop.simps [of xs i])
  qed
qed

lemma marshal_loop_handle:
  "cuLaunchKernelExHandle (snd (marshal_loop xs i b w)) = cuLaunchKernelExHandle w"
proof (induction xs i b w rule: marshal_loop.induct)
  case (1 xs i b w)
  show ?case
  proof (cases "i < length xs")
    case True
    obtain v w' where c: "PyLong_AsUnsignedLongLong (xs ! i) w = (v, w')"
      by (cases "PyLong_AsUnsignedLongLong (xs ! i) w")
    have "cuLaunchKernelExHandle w' = cuLaunchKernelExHandle w"
      using conv_handle [of "xs ! i" w] c by simp
    with 1 [OF True c [symmetric]] True c show ?thesis
      by (simp add: marshal_loop.simps [of xs i])
  next
    case False
    then show ?thesis by (simp add: marshal_loop.simps [of xs i])
  qed
qed

lemma marshal_loop_ptrs:
  "length (arg_ptrs b) = length xs \<Longrightarrow> i \<le> length xs \<Longrightarrow>
   arg_ptrs (fst (marshal_loop xs i b w)) = take i (arg_ptrs b) @ map Slot [i..<length xs]"
proof (induction xs i b w rule: marshal_loop.induct)
  case (1 xs i b w)
  show ?case
  proof (cases "i < length xs")
    case True
    obtain v w' where c: "PyLong_AsUnsignedLongLong (xs ! i) w = (v, w')"
      by (cases "PyLong_AsUnsignedLongLong (xs ! i) w")
    let ?b = "b\<lparr>arg_vals := (arg_vals b)[i := v], arg_ptrs := (arg_ptrs b)[i := Slot i]\<rparr>"
    have ih: "arg_ptrs (fst (marshal_loop xs (Suc i) ?b w')) =
                take (Suc i) (arg_ptrs ?b) @ map Slot [Suc i..<length xs]"
      using 1 True c by simp
    have "take (Suc i) (arg_ptrs ?b) = take i (arg_ptrs b) @ [Slot i]"
      using True 1(2) by (simp add: take_Suc_conv_app_nth)
    moreover have "[i..<length xs] = i # [Suc i..<length xs]"
      using True by (simp add: upt_conv_Cons)
    ultimately show ?thesis
      using ih True c by (simp add: marshal_loop.simps [of xs i])
  next
    case False
    then have "marshal_loop xs i b w = (b, w)"
      by (simp add: marshal_loop.simps [of xs i])
    with 1 False show ?thesis by simp
  qed
qed

lemma marshal_loop_vals:
  "length (arg_vals b) = length xs \<Longrightarrow> i \<le> length xs \<Longrightarrow>
   \<forall>j. i \<le> j \<and> j < length xs \<longrightarrow> u64_representable (xs ! j) \<Longrightarrow>
   arg_vals (fst (marshal_loop xs i b w)) =
     take i (arg_vals b) @ map (\<lambda>x. word_of_int (int_value x)) (drop i xs)
   \<and> snd (marshal_loop xs i b w) = w"
proof (induction xs i b w rule: marshal_loop.induct)
  case (1 xs i b w)
  show ?case
  proof (cases "i < length xs")
    case True
    let ?v = "word_of_int (int_value (xs ! i)) :: 64 word"
    have c: "PyLong_AsUnsignedLongLong (xs ! i) w = (?v, w)"
      using 1(4) True by (simp add: conv_representable)
    let ?b = "b\<lparr>arg_vals := (arg_vals b)[i := ?v], arg_ptrs := (arg_ptrs b)[i := Slot i]\<rparr>"
    have ih: "arg_vals (fst (marshal_loop xs (Suc i) ?b w)) =
                take (Suc i) (arg_vals ?b) @ map (\<lambda>x. word_of_int (int_value x)) (drop (Suc i) xs)
              \<and> snd (marshal_loop xs (Suc i) ?b w) = w"
      using 1(1) [OF True c [symmetric]] 1(2,4) True by simp
    have "take (Suc i) (arg_vals ?b) = take i (arg_vals b) @ [?v]"
      using True 1(2) by (simp add: take_Suc_conv_app_nth)
    moreover have "drop i xs = xs ! i # drop (Suc i) xs"
      using True by (simp add: Cons_nth_drop_Suc)
    ultimately show ?thesis
      using ih True c by (simp add: marshal_loop.simps [of xs i])
  next
    case False
    then have "marshal_loop xs i b w = (b, w)"
      by (simp add: marshal_loop.simps [of xs i])
    with 1 False show ?thesis by simp
  qed
qed

lemma marshal_trace [simp]: "trace (snd (marshal e xs w)) = trace w"
  by (simp add: marshal_def Let_def marshal_loop_trace)

lemma marshal_handle [simp]:
  "cuLaunchKernelExHandle (snd (marshal e xs w)) = cuLaunchKernelExHandle w"
  by (simp add: marshal_def Let_def marshal_loop_handle)

lemma marshal_ptrs: "arg_ptrs (fst (marshal e xs w)) = map Slot [0..<length xs]"
  by (simp add: marshal_def Let_def marshal_loop_ptrs)

lemma marshal_representable:
  "\<forall>x \<in> set xs. u64_representable x \<Longrightarrow>
   marshal e xs w =
     (\<lparr>arg_vals = map (\<lambda>x. word_of_int (int_value x)) xs,
       arg_ptrs = map Slot [0..<length xs]\<rparr>, w)"
proof -
  assume r: "\<forall>x \<in> set xs. u64_representable x"
  let ?b = "\<lparr>arg_vals = replicate (length xs) (uninitialised e),
              arg_ptrs = replicate (length xs) Wild\<rparr>"
  have v: "arg_vals (fst (marshal_loop xs 0 ?b w)) = map (\<lambda>x. word_of_int (int_value x)) xs
           \<and> snd (marshal_loop xs 0 ?b w) = w"
    using marshal_loop_vals [of ?b xs 0 w] r by simp
  have p: "arg_ptrs (fst (marshal_loop xs 0 ?b w)) = map Slot [0..<length xs]"
    using marshal_loop_ptrs [of ?b xs 0 w] by simp
  obtain b' w' where m: "marshal_loop xs 0 ?b w = (b', w')"
    by (cases "marshal_loop xs 0 ?b w")
  with v p have "arg_vals b' = map (\<lambda>x. word_of_int (int_value x)) xs"
    "arg_ptrs b' = map Slot [0..<length xs]" "w' = w" by simp_all
  then have "b' = \<lparr>arg_vals = map (\<lambda>x. word_of_int (int_value x)) xs,
       arg_ptrs = map Slot [0..<length xs]\<rparr>" by (cases b') simp
  with m \<open>w' = w\<close> show ?thesis by (simp add: marshal_def Let_def)
qed

text \<open>The trace only grows, and the resolver adds loader calls only.\<close>

lemma static_launch_extends:
  "\<exists>evs. trace (outcome_world (static_launch e gx gy gz nw nc cx cy cz sh st f ps w)) = trace w @ evs"
proof -
  obtain evs where r: "trace (resolveExtendedLaunch e w) = trace w @ evs"
    using trace_resolve by blast
  show ?thesis
    by (simp add: static_launch_def Let_def outcome_world_def r)
qed

lemma trace_issued:
  "trace (outcome_world (static_launch e gx gy gz nw nc cx cy cz sh st f ps w)) =
     trace w @ issued w (outcome_world (static_launch e gx gy gz nw nc cx cy cz sh st f ps w))"
  using static_launch_extends [of e gx gy gz nw nc cx cy cz sh st f ps w]
  by (auto simp: issued_def)

lemma loader_not_launch:
  "is_loader_call ev \<Longrightarrow> \<not> is_simple_launch ev \<and> \<not> is_extended_launch ev \<and> \<not> is_hook_call ev"
  by (cases ev) simp_all

lemma issued_resolve_loader:
  "\<forall>ev \<in> set (issued w (resolveExtendedLaunch e w)). is_loader_call ev"
  using trace_resolve [of e w] by (auto simp: issued_def)

lemma filter_loader_simple:
  "\<forall>ev \<in> set evs. is_loader_call ev \<Longrightarrow> filter is_simple_launch evs = []"
  by (induction evs) (auto dest: loader_not_launch)

lemma filter_loader_driver:
  "\<forall>ev \<in> set evs. is_loader_call ev \<Longrightarrow> filter is_driver_launch evs = []"
  by (induction evs) (auto simp: is_driver_launch_def dest: loader_not_launch)

lemma static_launch_cluster_issued:
  assumes "0 <s gx * gy * gz" "nc \<noteq> 1" "cuLaunchKernelExHandle (resolveExtendedLaunch e w) \<noteq> 0"
  shows "issued w (outcome_world (static_launch e gx gy gz nw nc cx cy cz sh st f ps w)) =
     issued w (resolveExtendedLaunch e w) @
     [CuLaunchKernelEx (cuLaunchKernelExHandle (resolveExtendedLaunch e w))
             \<lparr>gridDimX = gx * cx, gridDimY = gy * cy, gridDimZ = gz * cz,
              blockDimX = 32 * nw, blockDimY = 1, blockDimZ = 1,
              sharedMemBytes = sh, hStream = st,
              attrs = [\<lparr>attr_id = CU_LAUNCH_ATTRIBUTE_CLUSTER_DIMENSION,
                        attr_value = clusterDim cx cy cz\<rparr>,
                       \<lparr>attr_id = CU_LAUNCH_ATTRIBUTE_CLUSTER_SCHEDULING_POLICY_PREFERENCE,
                        attr_value = clusterSchedulingPolicyPreference
                                       CU_CLUSTER_SCHEDULING_POLICY_SPREAD\<rparr>],
              numAttrs = 2\<rparr> f ps 0]"
proof -
  obtain evs where r: "trace (resolveExtendedLaunch e w) = trace w @ evs"
    using trace_resolve by blast
  show ?thesis
    using assms by (simp add: static_launch_cluster Let_def outcome_world_def issued_def r)
qed

text \<open>Facts about the concrete environments, and exact extents.\<close>

lemma resolve_new_driver_fresh:
  "resolveExtendedLaunch new_driver fresh =
     \<lparr>pyerr = None, cuLaunchKernelExHandle = 0x7F0000002000,
      trace = [Dlopen ''libcuda.so'', Dlerror, Dlsym ''cuLaunchKernelEx'', Dlerror]\<rparr>"
  by (simp add: resolveExtendedLaunch_def getLaunchKernelExHandle_def new_driver_def fresh_def Let_def)

lemma available_new_driver: "extended_launch_available new_driver w"
  by (simp add: extended_launch_available_def new_driver_def)

lemma extent_exact:
  fixes a b :: "32 word"
  assumes "- (2 ^ 31) \<le> sint a * sint b" and "sint a * sint b < 2 ^ 31"
  shows "sint (a * b) = sint a * sint b"
proof -
  have "a * b = word_of_int (sint a * sint b)" by simp
  then have "sint (a * b) = signed_take_bit 31 (sint a * sint b)"
    by (simp only: sint_sbintrunc') simp
  also have "\<dots> = sint a * sint b"
    using assms by (intro signed_take_bit_int_eq_self) simp_all
  finally show ?thesis .
qed

text \<open>\<^verbatim>\<open>launch\<close> in terms of its three phases.\<close>

lemma launch_alt:
  "launch e a w =
     (case hook_failed (launch_enter_hook a) w of
        (True, w1) \<Rightarrow> Inr (NULL, w1)
      | (False, w1) \<Rightarrow>
          (case device_phase e a w1 of
             Inl crash \<Rightarrow> Inl crash
           | Inr w3 \<Rightarrow>
               if pyerr w3 \<noteq> None then Inr (NULL, w3)
               else
                 (case hook_failed (launch_exit_hook a) w3 of
                    (True, w4) \<Rightarrow> Inr (NULL, w4)
                  | (False, w4) \<Rightarrow> Inr (ReturnNone, w4))))"
proof (cases "hook_failed (launch_enter_hook a) w")
  case (Pair failed w1)
  show ?thesis
  proof (cases "marshal e (args_obj a) w1")
    case m: (Pair b w2)
    show ?thesis
      by (cases failed) (simp_all add: launch_def device_phase_def Pair m)
  qed
qed

lemma hook_failed_eq:
  "hook_failed h w =
     (case hook_exception h of
        None \<Rightarrow> (False, w\<lparr>trace := trace w @ hook_call h\<rparr>)
      | Some exc \<Rightarrow> (True, w\<lparr>trace := trace w @ hook_call h, pyerr := Some exc\<rparr>))"
  by (cases h) (simp_all add: hook_failed_def Let_def split: option.splits)

lemma device_phase_eq:
  "device_phase e a w =
     static_launch e (gridX a) (gridY a) (gridZ a) (num_warps a) (num_ctas a)
       (clusterDimX a) (clusterDimY a) (clusterDimZ a) (shared_memory a)
       (stream a) (func a) (map Slot [0..<length (args_obj a)]) (snd (marshal e (args_obj a) w))"
  using marshal_ptrs [of e "args_obj a" w]
  by (cases "marshal e (args_obj a) w") (simp add: device_phase_def)

lemma static_launch_events:
  "\<forall>ev \<in> set (issued w (outcome_world (static_launch e gx gy gz nw nc cx cy cz sh st f ps w))).
     is_loader_call ev \<or> is_driver_launch ev"
proof -
  let ?r = "static_launch e gx gy gz nw nc cx cy cz sh st f ps w"
  have ld: "\<forall>ev \<in> set (issued w (resolveExtendedLaunch e w)). is_loader_call ev"
    by (rule issued_resolve_loader)
  consider (skip) "\<not> 0 <s gx * gy * gz"
    | (simple) "0 <s gx * gy * gz" "nc = 1"
    | (null) "0 <s gx * gy * gz" "nc \<noteq> 1" "cuLaunchKernelExHandle (resolveExtendedLaunch e w) = 0"
    | (cluster) "0 <s gx * gy * gz" "nc \<noteq> 1" "cuLaunchKernelExHandle (resolveExtendedLaunch e w) \<noteq> 0"
    by blast
  then show ?thesis
  proof cases
    case skip
    then show ?thesis by (simp add: static_launch_degenerate outcome_world_def)
  next
    case simple
    then show ?thesis
      by (simp add: static_launch_simple outcome_world_def is_driver_launch_def)
  next
    case null
    then show ?thesis
      using ld by (simp add: static_launch_cluster_null outcome_world_def)
  next
    case cluster
    have "issued w (outcome_world ?r) =
            issued w (resolveExtendedLaunch e w) @ [last (issued w (outcome_world ?r))]
          \<and> is_extended_launch (last (issued w (outcome_world ?r)))"
      by (simp add: static_launch_cluster_issued [OF cluster])
    then obtain c where c: "issued w (outcome_world ?r) = issued w (resolveExtendedLaunch e w) @ [c]"
      and x: "is_extended_launch c"
      by blast
    show ?thesis
      unfolding c using ld x by (auto simp: is_driver_launch_def)
  qed
qed

lemma device_phase_trace:
  "\<exists>dev. trace (outcome_world (device_phase e a w)) = trace w @ dev \<and>
         (\<forall>ev \<in> set dev. is_loader_call ev \<or> is_driver_launch ev)"
proof -
  let ?w2 = "snd (marshal e (args_obj a) w)"
  let ?r = "static_launch e (gridX a) (gridY a) (gridZ a) (num_warps a) (num_ctas a)
       (clusterDimX a) (clusterDimY a) (clusterDimZ a) (shared_memory a)
       (stream a) (func a) (map Slot [0..<length (args_obj a)]) ?w2"
  have r: "device_phase e a w = ?r"
    by (rule device_phase_eq)
  have "trace (outcome_world ?r) = trace ?w2 @ issued ?w2 (outcome_world ?r)"
    by (rule trace_issued)
  then have t: "trace (outcome_world ?r) = trace w @ issued ?w2 (outcome_world ?r)"
    by (simp only: marshal_trace)
  have l: "\<forall>ev \<in> set (issued ?w2 (outcome_world ?r)). is_loader_call ev \<or> is_driver_launch ev"
    by (rule static_launch_events)
  show ?thesis
    unfolding r using t l by blast
qed

lemma not_hook_call:
  "is_loader_call ev \<or> is_driver_launch ev \<Longrightarrow> \<not> is_hook_call ev"
  by (cases ev) (simp_all add: is_driver_launch_def)

lemma device_phase_skipped:
  "\<not> 0 <s gridX a * gridY a * gridZ a \<Longrightarrow>
   device_phase e a w = Inr (snd (marshal e (args_obj a) w))"
  by (simp add: device_phase_eq static_launch_degenerate)

lemma launch_skipped:
  assumes "\<not> 0 <s gridX a * gridY a * gridZ a"
    and "launch_enter_hook a = Py_None" and "launch_exit_hook a = Py_None"
    and "pyerr w = None" and "\<forall>x \<in> set (args_obj a). u64_representable x"
  shows "launch e a w = Inr (ReturnNone, w)"
  using assms
  by (simp add: launch_alt hook_failed_def device_phase_skipped marshal_representable)

text \<open>The cluster path without a usable handle.\<close>

lemma cluster_launch_unavailable:
  assumes "0 <s gx * gy * gz" and "nc \<noteq> 1" and "\<not> extended_launch_available e w"
  shows "static_launch e gx gy gz nw nc cx cy cz sh st f ps w =
           Inl (NullFunctionPointerCall, resolveExtendedLaunch e w)"
  using assms by (simp add: static_launch_cluster_null handle_resolve_unavailable)

text \<open>With a handle cached, nothing touches the loader or the handle again.\<close>

lemma hook_failed_handle [simp]:
  "cuLaunchKernelExHandle (snd (hook_failed h w)) = cuLaunchKernelExHandle w"
  by (cases h) (simp_all add: hook_failed_def Let_def split: option.splits)

lemma hook_failed_trace:
  "trace (snd (hook_failed h w)) = trace w @ hook_call h"
  by (cases h) (simp_all add: hook_failed_def Let_def split: option.splits)

lemma hook_call_not_loader: "\<forall>ev \<in> set (hook_call h). \<not> is_loader_call ev"
  by (cases h) simp_all

lemma static_launch_cached:
  assumes "cuLaunchKernelExHandle w \<noteq> 0"
  shows "\<exists>w' evs. static_launch e gx gy gz nw nc cx cy cz sh st f ps w = Inr w'
           \<and> cuLaunchKernelExHandle w' = cuLaunchKernelExHandle w
           \<and> trace w' = trace w @ evs \<and> (\<forall>ev \<in> set evs. \<not> is_loader_call ev)"
proof -
  have r: "resolveExtendedLaunch e w = w"
    using assms by (rule resolve_cached)
  consider (skip) "\<not> 0 <s gx * gy * gz"
    | (simple) "0 <s gx * gy * gz" "nc = 1"
    | (cluster) "0 <s gx * gy * gz" "nc \<noteq> 1"
    by blast
  then show ?thesis
  proof cases
    case skip
    then show ?thesis by (simp add: static_launch_degenerate)
  next
    case simple
    then show ?thesis by (simp add: static_launch_simple)
  next
    case cluster
    then show ?thesis
      using assms by (simp add: static_launch_cluster r Let_def)
  qed
qed

lemma launch_cached:
  assumes "cuLaunchKernelExHandle w \<noteq> 0"
  shows "\<exists>v w' evs. launch e a w = Inr (v, w')
           \<and> cuLaunchKernelExHandle w' = cuLaunchKernelExHandle w
           \<and> trace w' = trace w @ evs \<and> (\<forall>ev \<in> set evs. \<not> is_loader_call ev)"
proof -
  obtain failed w1 where h1: "hook_failed (launch_enter_hook a) w = (failed, w1)"
    by (cases "hook_failed (launch_enter_hook a) w")
  have w1: "cuLaunchKernelExHandle w1 = cuLaunchKernelExHandle w"
    "trace w1 = trace w @ hook_call (launch_enter_hook a)"
    using hook_failed_handle [of "launch_enter_hook a" w]
      hook_failed_trace [of "launch_enter_hook a" w] h1 by simp_all
  note n1 = hook_call_not_loader [of "launch_enter_hook a"]
  show ?thesis
  proof (cases failed)
    case True
    then show ?thesis
      using h1 w1 n1 by (simp add: launch_alt)
  next
    case False
    let ?w2 = "snd (marshal e (args_obj a) w1)"
    have w2: "cuLaunchKernelExHandle ?w2 \<noteq> 0"
      using assms w1 by simp
    obtain w3 evs where s: "device_phase e a w1 = Inr w3"
      and w3: "cuLaunchKernelExHandle w3 = cuLaunchKernelExHandle ?w2"
        "trace w3 = trace ?w2 @ evs" "\<forall>ev \<in> set evs. \<not> is_loader_call ev"
      using static_launch_cached [OF w2] unfolding device_phase_eq by blast
    have t3: "trace w3 = trace w @ (hook_call (launch_enter_hook a) @ evs)"
      using w3 w1 by simp
    have k3: "cuLaunchKernelExHandle w3 = cuLaunchKernelExHandle w"
      using w3 w1 by simp
    show ?thesis
    proof (cases "pyerr w3 \<noteq> None")
      case True
      have "launch e a w = Inr (NULL, w3)"
        using h1 False s True by (simp add: launch_alt)
      moreover have "\<forall>ev \<in> set (hook_call (launch_enter_hook a) @ evs). \<not> is_loader_call ev"
        using n1 w3(3) by auto
      ultimately show ?thesis
        using t3 k3 by blast
    next
      case no_err: False
      obtain failed' w4 where h4: "hook_failed (launch_exit_hook a) w3 = (failed', w4)"
        by (cases "hook_failed (launch_exit_hook a) w3")
      have w4: "cuLaunchKernelExHandle w4 = cuLaunchKernelExHandle w3"
        "trace w4 = trace w3 @ hook_call (launch_exit_hook a)"
        using hook_failed_handle [of "launch_exit_hook a" w3]
          hook_failed_trace [of "launch_exit_hook a" w3] h4 by simp_all
      have "launch e a w = Inr (if failed' then NULL else ReturnNone, w4)"
        using h1 False s no_err h4 by (cases failed') (simp_all add: launch_alt)
      moreover have "trace w4 =
          trace w @ (hook_call (launch_enter_hook a) @ evs @ hook_call (launch_exit_hook a))"
        using w4 t3 by simp
      moreover have "\<forall>ev \<in> set (hook_call (launch_enter_hook a) @ evs @ hook_call (launch_exit_hook a)).
          \<not> is_loader_call ev"
        using n1 w3(3) hook_call_not_loader [of "launch_exit_hook a"] by auto
      moreover have "cuLaunchKernelExHandle w4 = cuLaunchKernelExHandle w"
        using w4 k3 by simp
      ultimately show ?thesis by blast
    qed
  qed
qed

lemma launches_cached:
  "cuLaunchKernelExHandle w \<noteq> 0 \<Longrightarrow>
   \<exists>w' evs. launches reqs w = Inr w'
      \<and> cuLaunchKernelExHandle w' = cuLaunchKernelExHandle w
      \<and> trace w' = trace w @ evs \<and> (\<forall>ev \<in> set evs. \<not> is_loader_call ev)"
proof (induction reqs arbitrary: w)
  case Nil
  then show ?case by simp
next
  case (Cons req reqs)
  obtain e a where req: "req = (e, a)" by (cases req)
  obtain v w1 evs1 where l: "launch e a w = Inr (v, w1)"
    and k1: "cuLaunchKernelExHandle w1 = cuLaunchKernelExHandle w"
    and t1: "trace w1 = trace w @ evs1" and n1: "\<forall>ev \<in> set evs1. \<not> is_loader_call ev"
    using launch_cached [OF Cons.prems] by blast
  let ?w1 = "w1\<lparr>pyerr := None\<rparr>"
  have "cuLaunchKernelExHandle ?w1 \<noteq> 0"
    using k1 Cons.prems by simp
  from Cons.IH [OF this] obtain w' evs where r: "launches reqs ?w1 = Inr w'"
    and k: "cuLaunchKernelExHandle w' = cuLaunchKernelExHandle ?w1"
    and t: "trace w' = trace ?w1 @ evs" and n: "\<forall>ev \<in> set evs. \<not> is_loader_call ev"
    by blast
  have "launches (req # reqs) w = Inr w'"
    using req l r by simp
  moreover have "trace w' = trace w @ (evs1 @ evs)"
    using t t1 by simp
  moreover have "\<forall>ev \<in> set (evs1 @ evs). \<not> is_loader_call ev"
    using n n1 by auto
  moreover have "cuLaunchKernelExHandle w' = cuLaunchKernelExHandle w"
    using k k1 by simp
  ultimately show ?case by blast
qed

text \<open>The device phase of a call shaped like scenario A, on the accepting driver.\<close>

lemma device_phase_scenario_A_like:
  assumes "args_obj a = []" and "gridX a = 1" and "gridY a = 1" and "gridZ a = 1"
    and "num_ctas a = 1" and "cu_result e = (\<lambda>ev. CUDA_SUCCESS)"
  shows "device_phase e a w =
     Inr (w\<lparr>trace := trace w @
            [CuLaunchKernel (func a) 1 1 1 (32 * num_warps a) 1 1 (shared_memory a) (stream a) [] 0]\<rparr>)"
proof -
  have m: "marshal e (args_obj a) w = (\<lparr>arg_vals = [], arg_ptrs = []\<rparr>, w)"
    using marshal_representable [of "args_obj a" e w] assms(1) by simp
  have g: "0 <s gridX a * gridY a * gridZ a"
    using assms by (simp add: word_sless_alt)
  show ?thesis
    using g assms m
    by (simp add: device_phase_eq static_launch_simple gpuAssert_def)
qed

text \<open>The device phase on the simple path.\<close>

lemma device_phase_simple_issued:
  assumes "0 <s gridX a * gridY a * gridZ a" and "num_ctas a = 1"
  shows "issued w (outcome_world (device_phase e a w)) =
           [CuLaunchKernel (func a) (gridX a) (gridY a) (gridZ a) (32 * num_warps a) 1 1
              (shared_memory a) (stream a) (map Slot [0..<length (args_obj a)]) 0]"
proof -
  let ?w2 = "snd (marshal e (args_obj a) w)"
  let ?call = "CuLaunchKernel (func a) (gridX a) (gridY a) (gridZ a) (32 * num_warps a) 1 1
              (shared_memory a) (stream a) (map Slot [0..<length (args_obj a)]) 0"
  have "device_phase e a w =
          Inr (gpuAssert e (cu_result e ?call) (?w2\<lparr>trace := trace ?w2 @ [?call]\<rparr>))"
    using assms by (simp add: device_phase_eq static_launch_simple)
  then have "trace (outcome_world (device_phase e a w)) = trace w @ [?call]"
    by (simp add: outcome_world_def)
  then show ?thesis
    by (rule issued_append)
qed

subsection \<open>The dispatcher\<close>

text \<open>
  Claim C2. When the grid product \<^verbatim>\<open>gridX*gridY*gridZ\<close> is 0, \<^verbatim>\<open>_launch\<close> returns
  with the state as it found it: no call to the driver or the loader on either path,
  and the error indicator untouched. Seen from \<^verbatim>\<open>launch\<close>: marshaling and
  \<^verbatim>\<open>_launch\<close> together make no call, and \<^verbatim>\<open>launch\<close> returns \<^verbatim>\<open>Py_None\<close> when
  no hook is given, no error is pending and the arguments convert.
\<close>

theorem degenerate_grid_is_noop:
  assumes "gridX a * gridY a * gridZ a = 0"
  shows "static_launch e (gridX a) (gridY a) (gridZ a) nw nc cx cy cz sh st f ps w = Inr w
       \<and> issued w (outcome_world (device_phase e a w)) = []
       \<and> (launch_enter_hook a = Py_None \<and> launch_exit_hook a = Py_None \<and> pyerr w = None
            \<and> (\<forall>x \<in> set (args_obj a). u64_representable x)
          \<longrightarrow> launch e a w = Inr (ReturnNone, w))"
proof -
  have n: "\<not> 0 <s gridX a * gridY a * gridZ a"
    using assms by simp
  have s: "static_launch e (gridX a) (gridY a) (gridZ a) nw nc cx cy cz sh st f ps w = Inr w"
    using n by (rule static_launch_degenerate)
  have d: "issued w (outcome_world (device_phase e a w)) = []"
    using n by (simp add: device_phase_skipped outcome_world_def)
  have l: "launch e a w = Inr (ReturnNone, w)"
    if "launch_enter_hook a = Py_None" "launch_exit_hook a = Py_None" "pyerr w = None"
      "\<forall>x \<in> set (args_obj a). u64_representable x"
    using n that by (rule launch_skipped)
  from s d l show ?thesis by blast
qed

theorem degenerate_grid_is_noop_witness:
  "gridX empty_grid * gridY empty_grid * gridZ empty_grid = 0
   \<and> static_launch new_driver (gridX empty_grid) (gridY empty_grid) (gridZ empty_grid)
        8 4 2 2 1 1024 16 32 [Slot 0, Slot 1] fresh = Inr fresh
   \<and> issued fresh (outcome_world (device_phase new_driver empty_grid fresh)) = []
   \<and> launch new_driver empty_grid fresh = Inr (ReturnNone, fresh)"
proof -
  have h: "gridX empty_grid * gridY empty_grid * gridZ empty_grid = 0"
    by (simp add: empty_grid_def scenario_B_def)
  have p: "launch_enter_hook empty_grid = Py_None \<and> launch_exit_hook empty_grid = Py_None
           \<and> pyerr fresh = None \<and> (\<forall>x \<in> set (args_obj empty_grid). u64_representable x)"
    by (simp add: empty_grid_def scenario_B_def fresh_def)
  from degenerate_grid_is_noop [OF h, where e = new_driver and nw = 8 and nc = 4
      and cx = 2 and cy = 2 and cz = 1 and sh = 1024 and st = 16 and f = 32
      and ps = "[Slot 0, Slot 1]" and w = fresh] h p
  show ?thesis by blast
qed



text \<open>
  Claim C1, as the code has it. The guard of \<^verbatim>\<open>_launch\<close> is
  \<^verbatim>\<open>gridX*gridY*gridZ > 0\<close> on C \<^verbatim>\<open>int\<close>s. For every geometry that passes it:
  if \<^verbatim>\<open>num_ctas == 1\<close> the only call is the simple launch, whatever the cluster
  dimensions are; if \<^verbatim>\<open>num_ctas != 1\<close> no simple launch is ever made, and where the
  extended entry point is available the one driver launch made is the extended one.
\<close>

theorem path_selection_exact:
  assumes "0 <s gx * gy * gz"
  shows "(nc = 1 \<longrightarrow>
            issued w (outcome_world (static_launch e gx gy gz nw nc cx cy cz sh st f ps w)) =
              [CuLaunchKernel f gx gy gz (32 * nw) 1 1 sh st ps 0])
       \<and> (nc \<noteq> 1 \<longrightarrow>
            filter is_simple_launch
              (issued w (outcome_world (static_launch e gx gy gz nw nc cx cy cz sh st f ps w))) = []
            \<and> (extended_launch_available e w \<longrightarrow>
                 (\<exists>h cfg.
                    filter is_driver_launch
                      (issued w (outcome_world (static_launch e gx gy gz nw nc cx cy cz sh st f ps w))) =
                      [CuLaunchKernelEx h cfg f ps 0])))"
proof -
  note pos = assms
  let ?r = "static_launch e gx gy gz nw nc cx cy cz sh st f ps w"
  have one: "nc = 1 \<Longrightarrow> issued w (outcome_world ?r) = [CuLaunchKernel f gx gy gz (32 * nw) 1 1 sh st ps 0]"
    using pos by (simp add: static_launch_simple outcome_world_def)
  have ld: "\<forall>ev \<in> set (issued w (resolveExtendedLaunch e w)). is_loader_call ev"
    by (rule issued_resolve_loader)
  have no_simple: "filter is_simple_launch (issued w (outcome_world ?r)) = []" if nc: "nc \<noteq> 1"
  proof (cases "cuLaunchKernelExHandle (resolveExtendedLaunch e w) = 0")
    case True
    then have "outcome_world ?r = resolveExtendedLaunch e w"
      using pos nc by (simp add: static_launch_cluster_null outcome_world_def)
    then show ?thesis using ld by (simp add: filter_loader_simple)
  next
    case False
    show ?thesis
      using ld by (simp add: static_launch_cluster_issued [OF pos nc False] filter_loader_simple)
  qed
  have ext: "\<exists>h cfg. filter is_driver_launch (issued w (outcome_world ?r)) = [CuLaunchKernelEx h cfg f ps 0]"
    if nc: "nc \<noteq> 1" and av: "extended_launch_available e w"
  proof -
    have h: "cuLaunchKernelExHandle (resolveExtendedLaunch e w) \<noteq> 0"
      using av by (rule handle_resolve_available)
    show ?thesis
      using ld
      by (simp add: static_launch_cluster_issued [OF pos nc h] filter_loader_driver
          is_driver_launch_def)
  qed
  from one no_simple ext show ?thesis by blast
qed

theorem path_selection_exact_witness:
  "0 <s (2 :: cint) * 2 * 1
   \<and> issued fresh (outcome_world (static_launch new_driver 2 2 1 8 1 2 2 1 1024 16 32 [] fresh)) =
     [CuLaunchKernel 32 2 2 1 256 1 1 1024 16 [] 0]
   \<and> filter is_simple_launch
       (issued fresh (outcome_world (static_launch new_driver 2 2 1 8 4 2 2 1 1024 16 32 [] fresh))) = []
   \<and> (\<exists>h cfg. filter is_driver_launch
       (issued fresh (outcome_world (static_launch new_driver 2 2 1 8 4 2 2 1 1024 16 32 [] fresh))) =
       [CuLaunchKernelEx h cfg 32 [] 0])"
proof -
  have g: "0 <s (2 :: cint) * 2 * 1"
    by (simp add: word_sless_alt)
  have c: "(4 :: cint) \<noteq> 1" by simp
  from path_selection_exact [OF g, where nc = 1 and w = fresh and e = new_driver and nw = 8
      and cx = 2 and cy = 2 and cz = 1 and sh = 1024 and st = 16 and f = 32 and ps = "[]"]
    path_selection_exact [OF g, where nc = 4 and w = fresh and e = new_driver and nw = 8
      and cx = 2 and cy = 2 and cz = 1 and sh = 1024 and st = 16 and f = 32 and ps = "[]"]
    c available_new_driver [of fresh]
  have "issued fresh (outcome_world (static_launch new_driver 2 2 1 8 1 2 2 1 1024 16 32 [] fresh)) =
     [CuLaunchKernel 32 2 2 1 256 1 1 1024 16 [] 0]
   \<and> filter is_simple_launch
       (issued fresh (outcome_world (static_launch new_driver 2 2 1 8 4 2 2 1 1024 16 32 [] fresh))) = []
   \<and> (\<exists>h cfg. filter is_driver_launch
       (issued fresh (outcome_world (static_launch new_driver 2 2 1 8 4 2 2 1 1024 16 32 [] fresh))) =
       [CuLaunchKernelEx h cfg 32 [] 0])"
    by simp
  with g show ?thesis by blast
qed

text \<open>
  Claim C1 as worded, with "a non-zero grid product" in place of the guard, fails.
  The grid 65536 x 32768 x 1 has every dimension non-negative and a computed product
  that is not 0 (it is \<open>2 ^ 31\<close> wrapped to \<^verbatim>\<open>INT_MIN\<close>); the grid -1 x 1 x 1 has the
  product -1. With \<^verbatim>\<open>num_ctas == 1\<close> neither issues the simple launch:
  \<^verbatim>\<open>_launch\<close> returns without any call.
\<close>

theorem path_selection_nonzero_product_counterexample:
  "0 \<le>s (65536 :: cint) \<and> 0 \<le>s (32768 :: cint) \<and> 0 \<le>s (1 :: cint)
   \<and> (65536 :: cint) * 32768 * 1 \<noteq> 0
   \<and> issued fresh
        (outcome_world (static_launch new_driver 65536 32768 1 4 1 1 1 1 0 16 32 [] fresh)) = []
   \<and> (- 1 :: cint) * 1 * 1 \<noteq> 0
   \<and> issued fresh
        (outcome_world (static_launch new_driver (- 1) 1 1 4 1 1 1 1 0 16 32 [] fresh)) = []"
proof -
  have d: "0 \<le>s (65536 :: cint)" "0 \<le>s (32768 :: cint)" "0 \<le>s (1 :: cint)"
    by (simp_all add: word_sle_eq)
  have n: "(65536 :: cint) * 32768 * 1 \<noteq> 0" "(- 1 :: cint) * 1 * 1 \<noteq> 0"
    by simp_all
  have g: "\<not> 0 <s (65536 :: cint) * 32768 * 1" "\<not> 0 <s (- 1 :: cint) * 1 * 1"
    by (simp_all add: word_sless_alt)
  have a: "static_launch new_driver 65536 32768 1 4 1 1 1 1 0 16 32 [] fresh = Inr fresh"
    using g(1) by (rule static_launch_degenerate)
  have b: "static_launch new_driver (- 1) 1 1 4 1 1 1 1 0 16 32 [] fresh = Inr fresh"
    using g(2) by (rule static_launch_degenerate)
  have "issued fresh
        (outcome_world (static_launch new_driver 65536 32768 1 4 1 1 1 1 0 16 32 [] fresh)) = []"
    "issued fresh
        (outcome_world (static_launch new_driver (- 1) 1 1 4 1 1 1 1 0 16 32 [] fresh)) = []"
    by (simp_all only: a b outcome_world_def sum.case issued_same)
  with d n show ?thesis by blast
qed

text \<open>
  Claim C3. On the cluster path (positive grid product, \<^verbatim>\<open>num_ctas != 1\<close>) with the
  extended entry point available, the one driver launch made is the call through the
  resolved handle, and it is the last call made. Its descriptor has the grid extents
  \<open>(gridX * clusterDimX, gridY * clusterDimY, gridZ * clusterDimZ)\<close>, the block extents
  \<open>(32 * num_warps, 1, 1)\<close>, the given shared-memory size and stream, and exactly two
  attributes: the cluster dimension \<open>(clusterDimX, clusterDimY, clusterDimZ)\<close> and the
  scheduling-policy preference "spread". The products are those of C \<^verbatim>\<open>int\<close>; by
  \<open>extent_exact\<close> they are the mathematical products whenever these fit in an
  \<^verbatim>\<open>int\<close>.
\<close>

theorem cluster_path_descriptor:
  assumes "0 <s gx * gy * gz" and "nc \<noteq> 1" and "extended_launch_available e w"
  shows "filter is_driver_launch
           (issued w (outcome_world (static_launch e gx gy gz nw nc cx cy cz sh st f ps w))) =
         [CuLaunchKernelEx (cuLaunchKernelExHandle (resolveExtendedLaunch e w))
            \<lparr>gridDimX = gx * cx, gridDimY = gy * cy, gridDimZ = gz * cz,
             blockDimX = 32 * nw, blockDimY = 1, blockDimZ = 1,
             sharedMemBytes = sh, hStream = st,
             attrs = [\<lparr>attr_id = CU_LAUNCH_ATTRIBUTE_CLUSTER_DIMENSION,
                       attr_value = clusterDim cx cy cz\<rparr>,
                      \<lparr>attr_id = CU_LAUNCH_ATTRIBUTE_CLUSTER_SCHEDULING_POLICY_PREFERENCE,
                       attr_value = clusterSchedulingPolicyPreference
                                      CU_CLUSTER_SCHEDULING_POLICY_SPREAD\<rparr>],
             numAttrs = 2\<rparr> f ps 0]
       \<and> last (trace (outcome_world (static_launch e gx gy gz nw nc cx cy cz sh st f ps w))) \<in>
           set (filter is_driver_launch
             (issued w (outcome_world (static_launch e gx gy gz nw nc cx cy cz sh st f ps w))))"
proof -
  have h: "cuLaunchKernelExHandle (resolveExtendedLaunch e w) \<noteq> 0"
    using assms(3) by (rule handle_resolve_available)
  have ld: "\<forall>ev \<in> set (issued w (resolveExtendedLaunch e w)). is_loader_call ev"
    by (rule issued_resolve_loader)
  have a: "filter is_driver_launch
           (issued w (outcome_world (static_launch e gx gy gz nw nc cx cy cz sh st f ps w))) =
         [CuLaunchKernelEx (cuLaunchKernelExHandle (resolveExtendedLaunch e w))
            \<lparr>gridDimX = gx * cx, gridDimY = gy * cy, gridDimZ = gz * cz,
             blockDimX = 32 * nw, blockDimY = 1, blockDimZ = 1,
             sharedMemBytes = sh, hStream = st,
             attrs = [\<lparr>attr_id = CU_LAUNCH_ATTRIBUTE_CLUSTER_DIMENSION,
                       attr_value = clusterDim cx cy cz\<rparr>,
                      \<lparr>attr_id = CU_LAUNCH_ATTRIBUTE_CLUSTER_SCHEDULING_POLICY_PREFERENCE,
                       attr_value = clusterSchedulingPolicyPreference
                                      CU_CLUSTER_SCHEDULING_POLICY_SPREAD\<rparr>],
             numAttrs = 2\<rparr> f ps 0]"
    using ld
    by (simp add: static_launch_cluster_issued [OF assms(1,2) h] filter_loader_driver
        is_driver_launch_def)
  have b: "last (trace (outcome_world (static_launch e gx gy gz nw nc cx cy cz sh st f ps w))) =
      CuLaunchKernelEx (cuLaunchKernelExHandle (resolveExtendedLaunch e w))
            \<lparr>gridDimX = gx * cx, gridDimY = gy * cy, gridDimZ = gz * cz,
             blockDimX = 32 * nw, blockDimY = 1, blockDimZ = 1,
             sharedMemBytes = sh, hStream = st,
             attrs = [\<lparr>attr_id = CU_LAUNCH_ATTRIBUTE_CLUSTER_DIMENSION,
                       attr_value = clusterDim cx cy cz\<rparr>,
                      \<lparr>attr_id = CU_LAUNCH_ATTRIBUTE_CLUSTER_SCHEDULING_POLICY_PREFERENCE,
                       attr_value = clusterSchedulingPolicyPreference
                                      CU_CLUSTER_SCHEDULING_POLICY_SPREAD\<rparr>],
             numAttrs = 2\<rparr> f ps 0"
    using assms(1,2) h by (simp add: static_launch_cluster Let_def outcome_world_def)
  from a b show ?thesis by simp
qed

theorem cluster_path_descriptor_witness:
  "0 <s (2 :: cint) * 2 * 1 \<and> (4 :: cint) \<noteq> 1 \<and> extended_launch_available new_driver fresh \<and>
   filter is_driver_launch
     (issued fresh (outcome_world
        (static_launch new_driver 2 2 1 8 4 2 2 1 1024 16 32 [Slot 0, Slot 1] fresh))) =
   [CuLaunchKernelEx 0x7F0000002000
      \<lparr>gridDimX = 4, gridDimY = 4, gridDimZ = 1,
       blockDimX = 256, blockDimY = 1, blockDimZ = 1,
       sharedMemBytes = 1024, hStream = 16,
       attrs = [\<lparr>attr_id = CU_LAUNCH_ATTRIBUTE_CLUSTER_DIMENSION,
                 attr_value = clusterDim 2 2 1\<rparr>,
                \<lparr>attr_id = CU_LAUNCH_ATTRIBUTE_CLUSTER_SCHEDULING_POLICY_PREFERENCE,
                 attr_value = clusterSchedulingPolicyPreference
                                CU_CLUSTER_SCHEDULING_POLICY_SPREAD\<rparr>],
       numAttrs = 2\<rparr> 32 [Slot 0, Slot 1] 0]"
proof -
  have h: "0 <s (2 :: cint) * 2 * 1" "(4 :: cint) \<noteq> 1" by (simp_all add: word_sless_alt)
  note a = available_new_driver [of fresh]
  from cluster_path_descriptor [OF h a, of 8 2 2 1 1024 16 32 "[Slot 0, Slot 1]"] h a
  show ?thesis
    by (simp add: resolve_new_driver_fresh)
qed

subsection \<open>Marshaling\<close>



text \<open>
  Claim C7, evaluated where it fails. The argument tuple holds the Python int \<open>2 ^ 64\<close>,
  which an unsigned 64-bit integer cannot hold. The loop stores
  \<^verbatim>\<open>(unsigned long long)-1\<close> in the slot, the simple launch is issued with the pointer
  to that slot, and only then \<^verbatim>\<open>launch\<close> returns \<^verbatim>\<open>NULL\<close> with the
  \<^verbatim>\<open>OverflowError\<close> pending: the failure reaches the caller, but after the launch.
\<close>

theorem unrepresentable_argument_still_launched:
  "arg_vals (fst (marshal new_driver [PyLong 18446744073709551616] fresh)) = [0xFFFFFFFFFFFFFFFF]
   \<and> launch new_driver oversized_argument fresh =
       Inr (NULL,
            \<lparr>pyerr = Some OverflowError, cuLaunchKernelExHandle = 0,
             trace = [CuLaunchKernel 32 1 1 1 128 1 1 0 16 [Slot 0] 0]\<rparr>)"
proof -
  have m: "marshal new_driver [PyLong 18446744073709551616] fresh =
     (\<lparr>arg_vals = [0xFFFFFFFFFFFFFFFF], arg_ptrs = [Slot 0]\<rparr>, fresh\<lparr>pyerr := Some OverflowError\<rparr>)"
    by (simp add: marshal_def marshal_loop.simps PyLong_AsUnsignedLongLong_def Let_def)
  have g: "0 <s (1 :: cint) * 1 * 1"
    by (simp add: word_sless_alt)
  have d: "device_phase new_driver oversized_argument fresh =
     Inr \<lparr>pyerr = Some OverflowError, cuLaunchKernelExHandle = 0,
             trace = [CuLaunchKernel 32 1 1 1 128 1 1 0 16 [Slot 0] 0]\<rparr>"
  proof -
    have "device_phase new_driver oversized_argument fresh =
            static_launch new_driver 1 1 1 4 1 1 1 1 0 16 32 [Slot 0]
              (fresh\<lparr>pyerr := Some OverflowError\<rparr>)"
      by (simp add: device_phase_def oversized_argument_def m scenario_A_def)
    also have "\<dots> = Inr \<lparr>pyerr = Some OverflowError, cuLaunchKernelExHandle = 0,
             trace = [CuLaunchKernel 32 1 1 1 128 1 1 0 16 [Slot 0] 0]\<rparr>"
      using g
      by (simp add: static_launch_simple gpuAssert_def new_driver_def CUDA_SUCCESS_def fresh_def)
    finally show ?thesis .
  qed
  have h: "hook_failed (launch_enter_hook oversized_argument) fresh
             = (False, fresh)"
    by (simp add: hook_failed_def oversized_argument_def scenario_A_def)
  show ?thesis
    by (simp add: launch_alt h d m)
qed

subsection \<open>The extended-launch handle\<close>

text \<open>
  Claim C6, evaluated where it fails. The library opens, the symbol is absent, the
  process has launched nothing yet, and the call is scenario B (4 CTAs).
  \<^verbatim>\<open>getLaunchKernelExHandle\<close> sets the \<^verbatim>\<open>RuntimeError\<close> and returns NULL;
  \<^verbatim>\<open>_launch\<close> then calls through the NULL handle. \<^verbatim>\<open>launch\<close> does not return.
  (With the interpreter lock released, as it is at that point of \<^verbatim>\<open>launch\<close>, the
  process fails earlier still, when the error is set; no failure reaches the caller
  either way.)
  On the same driver scenario A (one CTA) launches and returns \<^verbatim>\<open>Py_None\<close>.
\<close>

theorem absent_symbol_null_call:
  "launch old_driver scenario_B fresh =
     Inl (NullFunctionPointerCall,
          \<lparr>pyerr = Some (RuntimeError ''Failed to retrieve cuLaunchKernelEx from libcuda.so''),
           cuLaunchKernelExHandle = 0,
           trace = [Dlopen ''libcuda.so'', Dlerror, Dlsym ''cuLaunchKernelEx'', Dlerror]\<rparr>)
   \<and> launch old_driver scenario_A fresh =
     Inr (ReturnNone,
          \<lparr>pyerr = None, cuLaunchKernelExHandle = 0,
           trace = [CuLaunchKernel 32 1 1 1 128 1 1 0 16 [] 0]\<rparr>)"
proof -
  have m: "marshal old_driver (args_obj scenario_B) fresh =
     (\<lparr>arg_vals = map (\<lambda>x. word_of_int (int_value x)) (args_obj scenario_B),
       arg_ptrs = map Slot [0..<length (args_obj scenario_B)]\<rparr>, fresh)"
    by (rule marshal_representable) (simp add: scenario_B_def)
  have r: "resolveExtendedLaunch old_driver fresh =
     \<lparr>pyerr = Some (RuntimeError ''Failed to retrieve cuLaunchKernelEx from libcuda.so''),
      cuLaunchKernelExHandle = 0,
      trace = [Dlopen ''libcuda.so'', Dlerror, Dlsym ''cuLaunchKernelEx'', Dlerror]\<rparr>"
    by (simp add: resolveExtendedLaunch_def getLaunchKernelExHandle_def old_driver_def
        fresh_def Let_def)
  have g: "0 <s gridX scenario_B * gridY scenario_B * gridZ scenario_B"
    "num_ctas scenario_B \<noteq> 1"
    by (simp_all add: scenario_B_def word_sless_alt)
  have u: "\<not> extended_launch_available old_driver fresh"
    by (simp add: extended_launch_available_def old_driver_def fresh_def)
  have "device_phase old_driver scenario_B fresh =
          Inl (NullFunctionPointerCall, resolveExtendedLaunch old_driver fresh)"
    using m by (simp add: device_phase_eq cluster_launch_unavailable [OF g u])
  moreover have "hook_failed (launch_enter_hook scenario_B) fresh = (False, fresh)"
    by (simp add: hook_failed_def scenario_B_def)
  ultimately have cluster: "launch old_driver scenario_B fresh =
     Inl (NullFunctionPointerCall,
          \<lparr>pyerr = Some (RuntimeError ''Failed to retrieve cuLaunchKernelEx from libcuda.so''),
           cuLaunchKernelExHandle = 0,
           trace = [Dlopen ''libcuda.so'', Dlerror, Dlsym ''cuLaunchKernelEx'', Dlerror]\<rparr>)"
    by (simp add: launch_alt r)
  have x: "launch_enter_hook scenario_A = Py_None" "launch_exit_hook scenario_A = Py_None"
    "func scenario_A = 32" "num_warps scenario_A = 4"
    "shared_memory scenario_A = 0" "stream scenario_A = 16"
    by (simp_all add: scenario_A_def)
  have d: "device_phase old_driver scenario_A w1 =
     Inr (w1\<lparr>trace := trace w1 @ [CuLaunchKernel 32 1 1 1 128 1 1 0 16 [] 0]\<rparr>)" for w1
    using device_phase_scenario_A_like [where a = scenario_A and w = w1 and e = old_driver]
    by (simp add: scenario_A_def old_driver_def)
  have simple: "launch old_driver scenario_A fresh =
     Inr (ReturnNone,
          \<lparr>pyerr = None, cuLaunchKernelExHandle = 0,
           trace = [CuLaunchKernel 32 1 1 1 128 1 1 0 16 [] 0]\<rparr>)"
    by (simp add: launch_alt hook_failed_def x d fresh_def)
  from cluster simple show ?thesis by simp
qed

text \<open>
  Claim C8. Once a resolution has left a non-NULL handle in the static variable, a
  second resolution changes nothing, whatever the loader would answer now: the state
  after it is the state before it, so the handle is the same and no \<^verbatim>\<open>dlopen\<close>,
  \<^verbatim>\<open>dlsym\<close> or \<^verbatim>\<open>dlerror\<close> call is made. And through any sequence of later calls
  of \<^verbatim>\<open>launch\<close>, with any arguments and any answers of the outside, the caller
  taking the pending exception after each, every call returns, the handle stays what
  it was and no loader call is made.
\<close>

theorem resolver_idempotent:
  assumes "cuLaunchKernelExHandle (resolveExtendedLaunch e w) \<noteq> 0"
  shows "resolveExtendedLaunch e' (resolveExtendedLaunch e w) = resolveExtendedLaunch e w
       \<and> (\<exists>w'. launches reqs (resolveExtendedLaunch e w) = Inr w'
            \<and> cuLaunchKernelExHandle w' = cuLaunchKernelExHandle (resolveExtendedLaunch e w)
            \<and> filter is_loader_call (issued (resolveExtendedLaunch e w) w') = []
            \<and> trace w' = trace (resolveExtendedLaunch e w) @ issued (resolveExtendedLaunch e w) w')"
proof -
  let ?w1 = "resolveExtendedLaunch e w"
  have a: "resolveExtendedLaunch e' ?w1 = ?w1"
    using assms by (rule resolve_cached)
  obtain w' evs where r: "launches reqs ?w1 = Inr w'"
    and k: "cuLaunchKernelExHandle w' = cuLaunchKernelExHandle ?w1"
    and t: "trace w' = trace ?w1 @ evs" and n: "\<forall>ev \<in> set evs. \<not> is_loader_call ev"
    using launches_cached [OF assms] by blast
  have i: "issued ?w1 w' = evs"
    using t by simp
  have "filter is_loader_call evs = []"
    using n by (simp add: filter_empty_conv)
  with a r k t i show ?thesis by simp
qed

theorem resolver_idempotent_witness:
  "cuLaunchKernelExHandle (resolveExtendedLaunch new_driver fresh) \<noteq> 0
   \<and> resolveExtendedLaunch old_driver (resolveExtendedLaunch new_driver fresh) =
       resolveExtendedLaunch new_driver fresh
   \<and> (\<exists>w'. launches [(old_driver, scenario_B), (failing_driver, scenario_A)]
               (resolveExtendedLaunch new_driver fresh) = Inr w'
          \<and> cuLaunchKernelExHandle w' = 0x7F0000002000
          \<and> filter is_loader_call (issued (resolveExtendedLaunch new_driver fresh) w') = [])"
proof -
  have h: "cuLaunchKernelExHandle (resolveExtendedLaunch new_driver fresh) \<noteq> 0"
    by (simp add: resolve_new_driver_fresh)
  have k: "cuLaunchKernelExHandle (resolveExtendedLaunch new_driver fresh) = 0x7F0000002000"
    by (simp add: resolve_new_driver_fresh)
  from resolver_idempotent [OF h, of old_driver
      "[(old_driver, scenario_B), (failing_driver, scenario_A)]"] h
  show ?thesis
    unfolding k by blast
qed

subsection \<open>Hooks\<close>

text \<open>
  Claim C9. A hook that is not \<^verbatim>\<open>Py_None\<close> is called by \<^verbatim>\<open>launch\<close> itself, in
  sequence with the rest. The enter hook is the first call made. If it raises,
  \<^verbatim>\<open>launch\<close> returns \<^verbatim>\<open>NULL\<close> with that exception pending and nothing else has
  been called: no loader call, no driver call. If it returns, marshaling and
  \<^verbatim>\<open>_launch\<close> run after it, and none of their calls is a hook call. When they return
  with no error pending, the exit hook is the last call made, after every driver call;
  if it raises, \<^verbatim>\<open>launch\<close> returns \<^verbatim>\<open>NULL\<close> with that exception pending, otherwise
  it returns \<^verbatim>\<open>Py_None\<close>. When they return with an error pending, \<^verbatim>\<open>launch\<close>
  returns \<^verbatim>\<open>NULL\<close> at once and the exit hook is not reached.
\<close>

theorem hooks_bracket_device_call:
  "(case hook_exception (launch_enter_hook a) of
      Some exc \<Rightarrow>
        launch e a w =
          Inr (NULL, w\<lparr>trace := trace w @ hook_call (launch_enter_hook a), pyerr := Some exc\<rparr>)
    | None \<Rightarrow>
        (case device_phase e a (w\<lparr>trace := trace w @ hook_call (launch_enter_hook a)\<rparr>) of
           Inl crash \<Rightarrow> launch e a w = Inl crash
         | Inr w3 \<Rightarrow>
             (\<exists>dev. trace w3 = trace w @ hook_call (launch_enter_hook a) @ dev
                    \<and> (\<forall>ev \<in> set dev. \<not> is_hook_call ev))
             \<and> (if pyerr w3 \<noteq> None then launch e a w = Inr (NULL, w3)
                else
                  (case hook_exception (launch_exit_hook a) of
                     Some exc \<Rightarrow>
                       launch e a w =
                         Inr (NULL, w3\<lparr>trace := trace w3 @ hook_call (launch_exit_hook a),
                                        pyerr := Some exc\<rparr>)
                   | None \<Rightarrow>
                       launch e a w =
                         Inr (ReturnNone,
                              w3\<lparr>trace := trace w3 @ hook_call (launch_exit_hook a)\<rparr>)))))"
proof (cases "hook_exception (launch_enter_hook a)")
  case (Some exc)
  then show ?thesis
    by (simp add: launch_alt hook_failed_eq)
next
  case None
  let ?w1 = "w\<lparr>trace := trace w @ hook_call (launch_enter_hook a)\<rparr>"
  have h1: "hook_failed (launch_enter_hook a) w = (False, ?w1)"
    using None by (simp add: hook_failed_eq)
  show ?thesis
  proof (cases "device_phase e a ?w1")
    case (Inl crash)
    then show ?thesis
      using None h1 by (simp add: launch_alt)
  next
    case (Inr w3)
    obtain dev where t: "trace (outcome_world (device_phase e a ?w1)) = trace ?w1 @ dev"
      and d: "\<forall>ev \<in> set dev. is_loader_call ev \<or> is_driver_launch ev"
      using device_phase_trace by blast
    have t3: "trace w3 = trace w @ hook_call (launch_enter_hook a) @ dev"
      using t Inr by (simp add: outcome_world_def)
    have nh: "\<forall>ev \<in> set dev. \<not> is_hook_call ev"
      using d not_hook_call by blast
    have ex: "\<exists>dev. trace w3 = trace w @ hook_call (launch_enter_hook a) @ dev
                    \<and> (\<forall>ev \<in> set dev. \<not> is_hook_call ev)"
      using t3 nh by blast
    show ?thesis
    proof (cases "pyerr w3 \<noteq> None")
      case True
      then have "launch e a w = Inr (NULL, w3)"
        using h1 Inr by (simp add: launch_alt)
      with ex True show ?thesis
        using None Inr by simp
    next
      case no_err: False
      show ?thesis
      proof (cases "hook_exception (launch_exit_hook a)")
        case exit_ok: None
        then have "launch e a w =
            Inr (ReturnNone, w3\<lparr>trace := trace w3 @ hook_call (launch_exit_hook a)\<rparr>)"
          using h1 Inr no_err by (simp add: launch_alt hook_failed_eq)
        with ex no_err exit_ok show ?thesis
          using None Inr by simp
      next
        case exit_raises: (Some exc)
        then have "launch e a w =
            Inr (NULL, w3\<lparr>trace := trace w3 @ hook_call (launch_exit_hook a), pyerr := Some exc\<rparr>)"
          using h1 Inr no_err by (simp add: launch_alt hook_failed_eq)
        with ex no_err exit_raises show ?thesis
          using None Inr by simp
      qed
    qed
  qed
qed

theorem hooks_bracket_device_call_witness:
  "launch new_driver exit_hook_raises fresh =
     Inr (NULL,
          \<lparr>pyerr = Some (Raised ''exit failed''), cuLaunchKernelExHandle = 0,
           trace = [PyObject_CallObject (Callable ''enter'' None),
                    CuLaunchKernel 32 1 1 1 128 1 1 0 16 [] 0,
                    PyObject_CallObject (Callable ''exit'' (Some (Raised ''exit failed'')))]\<rparr>)
   \<and> launch new_driver enter_hook_raises fresh =
     Inr (NULL,
          \<lparr>pyerr = Some (Raised ''enter failed''), cuLaunchKernelExHandle = 0,
           trace = [PyObject_CallObject (Callable ''enter'' (Some (Raised ''enter failed'')))]\<rparr>)"
proof -
  have x: "launch_enter_hook exit_hook_raises = Callable ''enter'' None"
    "launch_exit_hook exit_hook_raises = Callable ''exit'' (Some (Raised ''exit failed''))"
    "func exit_hook_raises = 32" "num_warps exit_hook_raises = 4"
    "shared_memory exit_hook_raises = 0" "stream exit_hook_raises = 16"
    by (simp_all add: exit_hook_raises_def scenario_A_def)
  have d: "device_phase new_driver exit_hook_raises w1 =
     Inr (w1\<lparr>trace := trace w1 @ [CuLaunchKernel 32 1 1 1 128 1 1 0 16 [] 0]\<rparr>)" for w1
    using device_phase_scenario_A_like [where a = exit_hook_raises and w = w1 and e = new_driver]
    by (simp add: exit_hook_raises_def scenario_A_def new_driver_def)
  have n: "launch_enter_hook enter_hook_raises = Callable ''enter'' (Some (Raised ''enter failed''))"
    by (simp add: enter_hook_raises_def scenario_A_def)
  have a: "launch new_driver exit_hook_raises fresh =
     Inr (NULL,
          \<lparr>pyerr = Some (Raised ''exit failed''), cuLaunchKernelExHandle = 0,
           trace = [PyObject_CallObject (Callable ''enter'' None),
                    CuLaunchKernel 32 1 1 1 128 1 1 0 16 [] 0,
                    PyObject_CallObject (Callable ''exit'' (Some (Raised ''exit failed'')))]\<rparr>)"
    using hooks_bracket_device_call [where a = exit_hook_raises and e = new_driver and w = fresh]
    by (simp add: x d fresh_def)
  have b: "launch new_driver enter_hook_raises fresh =
     Inr (NULL,
          \<lparr>pyerr = Some (Raised ''enter failed''), cuLaunchKernelExHandle = 0,
           trace = [PyObject_CallObject (Callable ''enter'' (Some (Raised ''enter failed'')))]\<rparr>)"
    using hooks_bracket_device_call [where a = enter_hook_raises and e = new_driver and w = fresh]
    by (simp add: n fresh_def)
  from a b show ?thesis by simp
qed

subsection \<open>Negative grid products\<close>

text \<open>
  Claim C10. The test of \<^verbatim>\<open>_launch\<close> is \<^verbatim>\<open>gridX*gridY*gridZ > 0\<close>, so a negative
  product is skipped like a zero one: \<^verbatim>\<open>_launch\<close> returns the state unchanged, the
  device phase of \<^verbatim>\<open>launch\<close> makes no call, and \<^verbatim>\<open>launch\<close> returns \<^verbatim>\<open>Py_None\<close>
  when no hook is given, no error is pending and the arguments convert. With grid
  dimensions that are all non-negative, the computed product is negative only if the
  mathematical product is beyond \<^verbatim>\<open>INT_MAX\<close>, that is only by the wrap-around of an
  overflow that C leaves undefined.
\<close>

theorem negative_grid_product_is_skipped:
  assumes "gridX a * gridY a * gridZ a <s 0"
  shows "static_launch e (gridX a) (gridY a) (gridZ a) nw nc cx cy cz sh st f ps w = Inr w
       \<and> issued w (outcome_world (device_phase e a w)) = []
       \<and> (launch_enter_hook a = Py_None \<and> launch_exit_hook a = Py_None \<and> pyerr w = None
            \<and> (\<forall>x \<in> set (args_obj a). u64_representable x)
          \<longrightarrow> launch e a w = Inr (ReturnNone, w))
       \<and> (0 \<le>s gridX a \<and> 0 \<le>s gridY a \<and> 0 \<le>s gridZ a
          \<longrightarrow> 2 ^ 31 \<le> sint (gridX a) * sint (gridY a) * sint (gridZ a))"
proof -
  have n: "\<not> 0 <s gridX a * gridY a * gridZ a"
    using assms by (simp add: word_sless_alt)
  have s: "static_launch e (gridX a) (gridY a) (gridZ a) nw nc cx cy cz sh st f ps w = Inr w"
    using n by (rule static_launch_degenerate)
  have d: "issued w (outcome_world (device_phase e a w)) = []"
    using n by (simp add: device_phase_skipped outcome_world_def)
  have l: "launch e a w = Inr (ReturnNone, w)"
    if "launch_enter_hook a = Py_None" "launch_exit_hook a = Py_None" "pyerr w = None"
      "\<forall>x \<in> set (args_obj a). u64_representable x"
    using n that by (rule launch_skipped)
  have o: "2 ^ 31 \<le> sint (gridX a) * sint (gridY a) * sint (gridZ a)"
    if g: "0 \<le>s gridX a" "0 \<le>s gridY a" "0 \<le>s gridZ a"
  proof (rule ccontr)
    assume "\<not> 2 ^ 31 \<le> sint (gridX a) * sint (gridY a) * sint (gridZ a)"
    then have "sint (gridX a) * sint (gridY a) * sint (gridZ a) < 2 ^ 31"
      by simp
    then have "0 \<le>s gridX a * gridY a * gridZ a"
      using g by (intro grid_product_nonneg)
    with assms show False
      by (simp add: word_sless_alt word_sle_eq)
  qed
  from s d l o show ?thesis by blast
qed

theorem negative_grid_product_is_skipped_witness:
  "gridX negative_grid * gridY negative_grid * gridZ negative_grid <s 0
   \<and> static_launch new_driver (gridX negative_grid) (gridY negative_grid) (gridZ negative_grid)
        4 1 1 1 1 0 16 32 [] fresh = Inr fresh
   \<and> launch new_driver negative_grid fresh = Inr (ReturnNone, fresh)
   \<and> gridX overflowing_grid * gridY overflowing_grid * gridZ overflowing_grid <s 0
   \<and> 0 \<le>s gridX overflowing_grid \<and> 0 \<le>s gridY overflowing_grid \<and> 0 \<le>s gridZ overflowing_grid
   \<and> 2 ^ 31 \<le> sint (gridX overflowing_grid) * sint (gridY overflowing_grid)
                 * sint (gridZ overflowing_grid)
   \<and> launch new_driver overflowing_grid fresh = Inr (ReturnNone, fresh)"
proof -
  have h: "gridX negative_grid * gridY negative_grid * gridZ negative_grid <s 0"
    by (simp add: negative_grid_def scenario_A_def word_sless_alt)
  have p: "launch_enter_hook negative_grid = Py_None \<and> launch_exit_hook negative_grid = Py_None
           \<and> pyerr fresh = None \<and> (\<forall>x \<in> set (args_obj negative_grid). u64_representable x)"
    by (simp add: negative_grid_def scenario_A_def fresh_def)
  have h': "gridX overflowing_grid * gridY overflowing_grid * gridZ overflowing_grid <s 0"
    by (simp add: overflowing_grid_def scenario_A_def word_sless_alt)
  have g': "0 \<le>s gridX overflowing_grid \<and> 0 \<le>s gridY overflowing_grid
            \<and> 0 \<le>s gridZ overflowing_grid"
    by (simp add: overflowing_grid_def scenario_A_def word_sle_eq)
  have p': "launch_enter_hook overflowing_grid = Py_None \<and> launch_exit_hook overflowing_grid = Py_None
           \<and> pyerr fresh = None \<and> (\<forall>x \<in> set (args_obj overflowing_grid). u64_representable x)"
    by (simp add: overflowing_grid_def scenario_A_def fresh_def)
  from negative_grid_product_is_skipped [OF h, where e = new_driver and nw = 4 and nc = 1
      and cx = 1 and cy = 1 and cz = 1 and sh = 0 and st = 16 and f = 32 and ps = "[]" and w = fresh]
    negative_grid_product_is_skipped [OF h', where e = new_driver and nw = 4 and nc = 1
      and cx = 1 and cy = 1 and cz = 1 and sh = 0 and st = 16 and f = 32 and ps = "[]" and w = fresh]
    h p h' g' p'
  show ?thesis by blast
qed

end
